theory Spec2Isabelle
  imports Complex_Main
begin

section \<open>The DOCX template script\<close>

text \<open>
  The repository is one Python script, \<^verbatim>\<open>scripts/create_docx_template.py\<close>: three
  module-level imports from the python-docx package, the function \<^verbatim>\<open>create_template\<close>
  and the \<^verbatim>\<open>if __name__ == '__main__'\<close> block with its two exception handlers.

  The script is embedded as a state-and-exception passing program. The state is the part
  of the machine the script can change (files, standard output); the document under
  construction is a local value, passed from statement to statement. The python-docx
  package is not part of the repository: the few calls the script makes into it are
  modelled below at the level of its object interface, and everything the package decides
  by itself (the blank document \<^verbatim>\<open>Document()\<close> starts from, whether a call raises) is a
  field of the environment.
\<close>

subsection \<open>Lengths\<close>

text \<open>
  python-docx keeps every length as an integer number of English Metric Units.
  \<^verbatim>\<open>Inches(x)\<close> is \<^verbatim>\<open>int(x * 914400)\<close> and \<^verbatim>\<open>Pt(x)\<close> is \<^verbatim>\<open>int(x * 12700)\<close>, with Python's
  \<^verbatim>\<open>int\<close> truncating towards zero. The script passes \<^verbatim>\<open>0.5\<close> and \<^verbatim>\<open>1\<close>, which binary
  floating point holds exactly, as are their products, so rationals stand for the floats.
\<close>

type_synonym length = int

definition EMUS_PER_INCH :: int where
  "EMUS_PER_INCH = 914400"

definition EMUS_PER_PT :: int where
  "EMUS_PER_PT = 12700"

definition py_int :: "rat \<Rightarrow> int" where
  "py_int q = (if 0 \<le> q then \<lfloor>q\<rfloor> else \<lceil>q\<rceil>)"

definition Inches :: "rat \<Rightarrow> length" where
  "Inches inches = py_int (inches * of_int EMUS_PER_INCH)"

definition Pt :: "rat \<Rightarrow> length" where
  "Pt points = py_int (points * of_int EMUS_PER_PT)"

subsection \<open>Documents\<close>

text \<open>
  A document is its sections and its body paragraphs, a paragraph its alignment and its
  runs, a run its text and its font size. A property that was never set reads as
  \<^verbatim>\<open>None\<close> in python-docx (the value is inherited from the style).
\<close>

datatype WD_ALIGN_PARAGRAPH = LEFT | CENTER | RIGHT | JUSTIFY | DISTRIBUTE

record docx_run =
  run_text :: string
  font_size :: "length option"

record docx_paragraph =
  alignment :: "WD_ALIGN_PARAGRAPH option"
  runs :: "docx_run list"

record docx_section =
  top_margin :: "length option"
  bottom_margin :: "length option"
  left_margin :: "length option"
  right_margin :: "length option"

record docx_document =
  sections :: "docx_section list"
  paragraphs :: "docx_paragraph list"

text \<open>\<^verbatim>\<open>paragraph.text\<close>: the texts of the paragraph's runs, concatenated.\<close>

definition paragraph_text :: "docx_paragraph \<Rightarrow> string" where
  "paragraph_text p = concat (map run_text (runs p))"

text \<open>
  The objects python-docx hands out (\<^verbatim>\<open>section\<close>, \<^verbatim>\<open>p\<close>, \<^verbatim>\<open>run\<close>) are proxies onto
  the one document: assigning through them changes the document. A proxy is modelled as
  the position of its element, and an assignment through it as an update at that
  position. A position outside the list changes nothing; the script only uses positions
  it has just been given.
\<close>

definition update_at :: "nat \<Rightarrow> ('a \<Rightarrow> 'a) \<Rightarrow> 'a list \<Rightarrow> 'a list" where
  "update_at i f xs = (if i < length xs then xs[i := f (xs ! i)] else xs)"

subsection \<open>Exceptions\<close>

text \<open>
  The handlers of the script select by class, so an exception carries its class and the
  text \<^verbatim>\<open>str(e)\<close> that an f-string prints. The classes are the part of Python's built-in
  hierarchy the script can meet, and \<open>Subclass\<close> for any class derived from them (the
  package's own exceptions, for example).
\<close>

datatype pyclass =
    BaseException
  | Exception
  | KeyboardInterrupt
  | ImportError
  | ModuleNotFoundError
  | OSError
  | PermissionError
  | FileNotFoundError
  | MemoryError
  | Subclass string pyclass

fun mro :: "pyclass \<Rightarrow> pyclass list" where
  "mro BaseException = [BaseException]"
| "mro Exception = [Exception, BaseException]"
| "mro KeyboardInterrupt = [KeyboardInterrupt, BaseException]"
| "mro ImportError = [ImportError, Exception, BaseException]"
| "mro ModuleNotFoundError = [ModuleNotFoundError, ImportError, Exception, BaseException]"
| "mro OSError = [OSError, Exception, BaseException]"
| "mro PermissionError = [PermissionError, OSError, Exception, BaseException]"
| "mro FileNotFoundError = [FileNotFoundError, OSError, Exception, BaseException]"
| "mro MemoryError = [MemoryError, Exception, BaseException]"
| "mro (Subclass name base) = Subclass name base # mro base"

record exn =
  cls :: pyclass
  str :: string

definition isinstance :: "exn \<Rightarrow> pyclass \<Rightarrow> bool" where
  "isinstance e c = (c \<in> set (mro (cls e)))"

subsection \<open>The machine and the environment\<close>

text \<open>
  A file is either a complete DOCX package or what a save that failed half-way left
  behind. Paths are kept as the script writes them, relative to the working directory.
  \<open>calls\<close> counts the calls made into python-docx so far.
\<close>

datatype disk_file = Docx docx_document | Truncated

record world =
  fs :: "string \<rightharpoonup> disk_file"
  stdout :: "string list"
  calls :: nat

text \<open>
  The environment: whether the package can be imported, the blank document
  \<^verbatim>\<open>Document()\<close> loads from the package's default template, for each call into the
  package (numbered in the order they are made) the exception it raises, if any, and
  whether a save that raises has already created the file.
\<close>

record env =
  docx_installed :: bool
  template :: docx_document
  fault :: "nat \<Rightarrow> exn option"
  torn_save :: bool

type_synonym 'a prog = "world \<Rightarrow> (exn + 'a) \<times> world"

definition unit_prog :: "'a \<Rightarrow> 'a prog" where
  "unit_prog x w = (Inr x, w)"

text \<open>Sequencing: an exception ends the sequence and keeps the state reached.\<close>

definition bind_prog :: "'a prog \<Rightarrow> ('a \<Rightarrow> 'b prog) \<Rightarrow> 'b prog" where
  "bind_prog m f w = (case m w of (Inl e, w') \<Rightarrow> (Inl e, w') | (Inr x, w') \<Rightarrow> f x w')"

definition lib_call :: "env \<Rightarrow> 'a \<Rightarrow> 'a prog" where
  "lib_call env x w =
     (case fault env (calls w) of
        Some e \<Rightarrow> (Inl e, w\<lparr>calls := Suc (calls w)\<rparr>)
      | None \<Rightarrow> (Inr x, w\<lparr>calls := Suc (calls w)\<rparr>))"

subsection \<open>The calls into python-docx\<close>

definition Document :: "env \<Rightarrow> docx_document prog" where
  "Document env = lib_call env (template env)"

text \<open>\<^verbatim>\<open>doc.sections\<close>: one proxy for each section, in document order.\<close>

definition get_sections :: "env \<Rightarrow> docx_document \<Rightarrow> nat list prog" where
  "get_sections env doc = lib_call env [0..<length (sections doc)]"

definition set_top_margin :: "env \<Rightarrow> nat \<Rightarrow> length \<Rightarrow> docx_document \<Rightarrow> docx_document prog" where
  "set_top_margin env s v doc =
     lib_call env (doc\<lparr>sections := update_at s (\<lambda>x. x\<lparr>top_margin := Some v\<rparr>) (sections doc)\<rparr>)"

definition set_bottom_margin :: "env \<Rightarrow> nat \<Rightarrow> length \<Rightarrow> docx_document \<Rightarrow> docx_document prog" where
  "set_bottom_margin env s v doc =
     lib_call env (doc\<lparr>sections := update_at s (\<lambda>x. x\<lparr>bottom_margin := Some v\<rparr>) (sections doc)\<rparr>)"

definition set_left_margin :: "env \<Rightarrow> nat \<Rightarrow> length \<Rightarrow> docx_document \<Rightarrow> docx_document prog" where
  "set_left_margin env s v doc =
     lib_call env (doc\<lparr>sections := update_at s (\<lambda>x. x\<lparr>left_margin := Some v\<rparr>) (sections doc)\<rparr>)"

definition set_right_margin :: "env \<Rightarrow> nat \<Rightarrow> length \<Rightarrow> docx_document \<Rightarrow> docx_document prog" where
  "set_right_margin env s v doc =
     lib_call env (doc\<lparr>sections := update_at s (\<lambda>x. x\<lparr>right_margin := Some v\<rparr>) (sections doc)\<rparr>)"

text \<open>
  \<^verbatim>\<open>doc.add_paragraph()\<close> appends an empty paragraph to the body and returns its proxy;
  \<^verbatim>\<open>p.add_run(text)\<close> appends a run to the paragraph and returns its proxy.
\<close>

definition add_paragraph :: "env \<Rightarrow> docx_document \<Rightarrow> (docx_document \<times> nat) prog" where
  "add_paragraph env doc =
     lib_call env (doc\<lparr>paragraphs := paragraphs doc @ [\<lparr>alignment = None, runs = []\<rparr>]\<rparr>,
                   length (paragraphs doc))"

definition set_alignment ::
  "env \<Rightarrow> nat \<Rightarrow> WD_ALIGN_PARAGRAPH \<Rightarrow> docx_document \<Rightarrow> docx_document prog" where
  "set_alignment env p a doc =
     lib_call env (doc\<lparr>paragraphs := update_at p (\<lambda>x. x\<lparr>alignment := Some a\<rparr>) (paragraphs doc)\<rparr>)"

definition add_run ::
  "env \<Rightarrow> nat \<Rightarrow> string \<Rightarrow> docx_document \<Rightarrow> (docx_document \<times> nat \<times> nat) prog" where
  "add_run env p t doc =
     lib_call env
       (doc\<lparr>paragraphs :=
              update_at p (\<lambda>x. x\<lparr>runs := runs x @ [\<lparr>run_text = t, font_size = None\<rparr>]\<rparr>)
                (paragraphs doc)\<rparr>,
        (p, length (runs (paragraphs doc ! p))))"

definition set_font_size ::
  "env \<Rightarrow> nat \<times> nat \<Rightarrow> length \<Rightarrow> docx_document \<Rightarrow> docx_document prog" where
  "set_font_size env r v doc =
     lib_call env
       (doc\<lparr>paragraphs :=
              update_at (fst r)
                (\<lambda>x. x\<lparr>runs := update_at (snd r) (\<lambda>y. y\<lparr>font_size := Some v\<rparr>) (runs x)\<rparr>)
                (paragraphs doc)\<rparr>)"

text \<open>
  \<^verbatim>\<open>doc.save(path)\<close> writes the package to the path. When it raises, the file is left
  as it was, or, if the failure came after the file was opened for writing, truncated.
\<close>

definition save :: "env \<Rightarrow> docx_document \<Rightarrow> string \<Rightarrow> unit prog" where
  "save env doc path w =
     (case fault env (calls w) of
        Some e \<Rightarrow>
          (Inl e, w\<lparr>calls := Suc (calls w),
                    fs := (if torn_save env then (fs w)(path \<mapsto> Truncated) else fs w)\<rparr>)
      | None \<Rightarrow>
          (Inr (), w\<lparr>calls := Suc (calls w), fs := (fs w)(path \<mapsto> Docx doc)\<rparr>))"

text \<open>\<^verbatim>\<open>print\<close> appends a line to standard output, which is taken to accept every text.\<close>

definition print :: "string \<Rightarrow> unit prog" where
  "print s w = (Inr (), w\<lparr>stdout := stdout w @ [s]\<rparr>)"

subsection \<open>\<^verbatim>\<open>create_template\<close>\<close>

text \<open>The loop \<^verbatim>\<open>for section in sections\<close>, four assignments for each section.\<close>

fun margin_loop :: "env \<Rightarrow> nat list \<Rightarrow> docx_document \<Rightarrow> docx_document prog" where
  "margin_loop env [] doc = unit_prog doc"
| "margin_loop env (s # rest) doc =
     bind_prog (set_top_margin env s (Inches (1/2)) doc) (\<lambda>doc.
     bind_prog (set_bottom_margin env s (Inches (1/2)) doc) (\<lambda>doc.
     bind_prog (set_left_margin env s (Inches (1/2)) doc) (\<lambda>doc.
     bind_prog (set_right_margin env s (Inches (1/2)) doc) (\<lambda>doc.
     margin_loop env rest doc))))"

text \<open>
  The first character of the success message is U+2713 (check mark), three bytes in
  UTF-8.
\<close>

definition check_mark :: string where
  "check_mark = [CHR 0xE2, CHR 0x9C, CHR 0x93]"

definition create_template :: "env \<Rightarrow> unit prog" where
  "create_template env =
     bind_prog (Document env) (\<lambda>doc.
     bind_prog (get_sections env doc) (\<lambda>sections.
     bind_prog (margin_loop env sections doc) (\<lambda>doc.
     bind_prog (add_paragraph env doc) (\<lambda>(doc, p).
     bind_prog (set_alignment env p CENTER doc) (\<lambda>doc.
     bind_prog (add_run env p ''{% for page in pages %}'' doc) (\<lambda>(doc, run).
     bind_prog (set_font_size env run (Pt 1) doc) (\<lambda>doc.
     bind_prog (add_paragraph env doc) (\<lambda>(doc, p2).
     bind_prog (set_alignment env p2 CENTER doc) (\<lambda>doc.
     bind_prog (add_run env p2 ''{{%img}}'' doc) (\<lambda>(doc, run2).
     bind_prog (set_font_size env run2 (Pt 1) doc) (\<lambda>doc.
     bind_prog (add_paragraph env doc) (\<lambda>(doc, p3).
     bind_prog (add_run env p3 ''{% endfor %}'' doc) (\<lambda>(doc, run3).
     bind_prog (set_font_size env run3 (Pt 1) doc) (\<lambda>doc.
     (let output_path = ''../assets/docx/document_template.docx'' in
     bind_prog (save env doc output_path) (\<lambda>_.
     bind_prog (print (check_mark @ '' Template created successfully at: '' @ output_path)) (\<lambda>_.
     print ''  This template can now be used by the Flutter app to generate DOCX files.''
     )))))))))))))))))"

subsection \<open>The script\<close>

text \<open>
  How the process ends: by \<^verbatim>\<open>exit(n)\<close> or by running off the end of the script
  (status 0), or with an exception nothing caught, which the interpreter reports as a
  traceback on standard error. For an exception of class \<^verbatim>\<open>Exception\<close> the status is
  then 1; for the others (an interrupt) the platform decides it.
\<close>

datatype ending = Exit nat | Traceback exn

fun exit_status :: "ending \<Rightarrow> nat option" where
  "exit_status (Exit n) = Some n"
| "exit_status (Traceback e) = (if isinstance e Exception then Some 1 else None)"

text \<open>The block under \<^verbatim>\<open>if __name__ == '__main__'\<close>: the call and its two handlers.\<close>

definition main_block :: "env \<Rightarrow> world \<Rightarrow> ending \<times> world" where
  "main_block env w =
     (case create_template env w of
        (Inr _, w') \<Rightarrow> (Exit 0, w')
      | (Inl e, w') \<Rightarrow>
          if isinstance e ImportError then
            (Exit 1,
             snd (bind_prog (print ''Error: python-docx is not installed.'') (\<lambda>_.
                  print ''Install it with: pip install python-docx'') w'))
          else if isinstance e Exception then
            (Exit 1, snd (print (''Error creating template: '' @ str e) w'))
          else (Traceback e, w'))"

text \<open>
  The script run as a program, so that \<^verbatim>\<open>__name__\<close> is \<^verbatim>\<open>'__main__'\<close>. The three \<^verbatim>\<open>from docx ... import\<close> statements come
  first, at module level and outside the \<^verbatim>\<open>try\<close>: without the package the first of
  them raises \<^verbatim>\<open>ModuleNotFoundError\<close> and the rest of the module is not executed.
\<close>

definition no_module_named_docx :: exn where
  "no_module_named_docx =
     \<lparr>cls = ModuleNotFoundError, str = ''No module named '' @ [CHR 0x27] @ ''docx'' @ [CHR 0x27]\<rparr>"

definition script :: "env \<Rightarrow> world \<Rightarrow> ending \<times> world" where
  "script env w =
     (if docx_installed env then main_block env w
      else (Traceback no_module_named_docx, w))"

subsection \<open>Concrete environments\<close>

text \<open>
  A blank document as the default template of python-docx gives it: one section with
  margins of 1 inch (top, bottom) and 1.25 inch (left, right), and an empty body.
\<close>

definition blank_document :: docx_document where
  "blank_document =
     \<lparr>sections = [\<lparr>top_margin = Some (Inches 1), bottom_margin = Some (Inches 1),
                   left_margin = Some (Inches (5/4)), right_margin = Some (Inches (5/4))\<rparr>],
      paragraphs = []\<rparr>"

definition w0 :: world where
  "w0 = \<lparr>fs = Map.empty, stdout = [], calls = 0\<rparr>"

text \<open>The package is installed and no call raises.\<close>

definition env_ok :: env where
  "env_ok = \<lparr>docx_installed = True, template = blank_document,
             fault = (\<lambda>_. None), torn_save = False\<rparr>"

text \<open>The package is not installed.\<close>

definition env_no_docx :: env where
  "env_no_docx = \<lparr>docx_installed = False, template = blank_document,
                  fault = (\<lambda>_. None), torn_save = False\<rparr>"

text \<open>
  With the blank document above, \<^verbatim>\<open>doc.save\<close> is call number 17 (counting from 0).
  Three environments where it raises: the output directory is not writable; the disk
  fills up while the file is written; the user interrupts the script.
\<close>

definition permission_denied :: exn where
  "permission_denied =
     \<lparr>cls = PermissionError,
      str = ''[Errno 13] Permission denied: '' @ [CHR 0x27] @
            ''../assets/docx/document_template.docx'' @ [CHR 0x27]\<rparr>"

definition env_unwritable :: env where
  "env_unwritable = \<lparr>docx_installed = True, template = blank_document,
                     fault = (\<lambda>n. if n = 17 then Some permission_denied else None),
                     torn_save = False\<rparr>"

definition no_space_left :: exn where
  "no_space_left = \<lparr>cls = OSError, str = ''[Errno 28] No space left on device''\<rparr>"

definition env_disk_full :: env where
  "env_disk_full = \<lparr>docx_installed = True, template = blank_document,
                    fault = (\<lambda>n. if n = 17 then Some no_space_left else None),
                    torn_save = True\<rparr>"

definition keyboard_interrupt :: exn where
  "keyboard_interrupt = \<lparr>cls = KeyboardInterrupt, str = []\<rparr>"

definition env_interrupted :: env where
  "env_interrupted = \<lparr>docx_installed = True, template = blank_document,
                      fault = (\<lambda>n. if n = 17 then Some keyboard_interrupt else None),
                      torn_save = False\<rparr>"

text \<open>
  A second machine for comparing runs: files and output are already there, calls have
  been counted, and a fault is scheduled at a call the script never reaches.
\<close>

definition w_used :: world where
  "w_used = \<lparr>fs = [''notes.txt'' \<mapsto> Truncated], stdout = [''earlier output''], calls = 5\<rparr>"

definition env_late_fault :: env where
  "env_late_fault = \<lparr>docx_installed = True, template = blank_document,
                     fault = (\<lambda>n. if n = 40 then Some no_space_left else None),
                     torn_save = True\<rparr>"

section \<open>Properties\<close>

subsection \<open>Lengths and positions\<close>

lemma Inches_half: "Inches (1/2) = 457200"
  by (simp add: Inches_def py_int_def EMUS_PER_INCH_def)

lemma Pt_one: "Pt 1 = 12700"
  by (simp add: Pt_def py_int_def EMUS_PER_PT_def)

lemma update_at_twice: "update_at i g (update_at i f xs) = update_at i (\<lambda>x. g (f x)) xs"
  by (simp add: update_at_def)

lemma update_at_conv:
  "i < length xs \<Longrightarrow> update_at i f xs = take i xs @ f (xs ! i) # drop (Suc i) xs"
  by (simp add: update_at_def upd_conv_take_nth_drop)

lemma update_at_append_right:
  "length xs \<le> i \<Longrightarrow> update_at i f (xs @ ys) = xs @ update_at (i - length xs) f ys"
  by (auto simp: update_at_def list_update_append nth_append)

lemma update_at_Cons_0: "update_at 0 f (x # xs) = f x # xs"
  by (simp add: update_at_def)

lemma update_at_Cons_Suc: "update_at (Suc i) f (x # xs) = x # update_at i f xs"
  by (simp add: update_at_def)

lemma update_at_Cons_numeral:
  "update_at (numeral v) f (x # xs) = x # update_at (numeral v - 1) f xs"
  by (simp add: update_at_def nth_Cons' list_update_code split: nat.splits)

lemmas update_at_simps =
  update_at_append_right update_at_Cons_0 update_at_Cons_Suc update_at_Cons_numeral nth_append

text \<open>Updating every position in turn is a map: what the loop over the sections does.\<close>

lemma fold_update_at_upt:
  "n \<le> length xs \<Longrightarrow> fold (\<lambda>i. update_at i f) [0..<n] xs = map f (take n xs) @ drop n xs"
proof (induction n)
  case 0
  then show ?case by simp
next
  case (Suc n)
  then have n: "n < length xs" by simp
  let ?ys = "map f (take n xs) @ drop n xs"
  have len: "n < length ?ys" using n by simp
  have tk: "take n ?ys = map f (take n xs)" using n by simp
  have nth: "?ys ! n = xs ! n" using n by (simp add: nth_append)
  have dr: "drop (Suc n) ?ys = drop (Suc n) xs" using n by simp
  have "fold (\<lambda>i. update_at i f) [0..<Suc n] xs = update_at n f ?ys"
    using Suc by simp
  also have "\<dots> = map f (take n xs) @ f (xs ! n) # drop (Suc n) xs"
    by (simp only: update_at_conv [OF len] tk nth dr)
  also have "\<dots> = map f (take (Suc n) xs) @ drop (Suc n) xs"
    using n by (simp add: take_Suc_conv_app_nth)
  finally show ?case .
qed

lemma fold_update_at_all:
  "fold (\<lambda>i. update_at i f) [0..<length xs] xs = map f xs"
  by (simp add: fold_update_at_upt)

subsection \<open>Statements that return\<close>

lemma bind_prog_InrE:
  assumes "bind_prog m f w = (Inr y, w'')"
  obtains x w' where "m w = (Inr x, w')" and "f x w' = (Inr y, w'')"
  using assms by (auto simp: bind_prog_def split: prod.splits sum.splits)

lemma lib_call_InrE:
  assumes "lib_call env x w = (Inr y, w')"
  obtains "y = x" and "w' = w\<lparr>calls := Suc (calls w)\<rparr>" and "fault env (calls w) = None"
  using assms by (auto simp: lib_call_def split: option.splits)

lemma save_InrE:
  assumes "save env doc path w = (Inr y, w')"
  obtains "w' = w\<lparr>calls := Suc (calls w), fs := (fs w)(path \<mapsto> Docx doc)\<rparr>"
    and "fault env (calls w) = None"
  using assms by (auto simp: save_def split: option.splits)

lemma bind_lib_call_InrD:
  "bind_prog (lib_call env x) f w = (Inr y, w'') \<Longrightarrow>
     f x (w\<lparr>calls := Suc (calls w)\<rparr>) = (Inr y, w'')"
  by (erule bind_prog_InrE, erule lib_call_InrE) simp

lemma bind_save_InrD:
  "bind_prog (save env doc path) f w = (Inr y, w'') \<Longrightarrow>
     f () (w\<lparr>calls := Suc (calls w), fs := (fs w)(path \<mapsto> Docx doc)\<rparr>) = (Inr y, w'')"
  by (erule bind_prog_InrE, erule save_InrE) simp

lemma bind_print:
  "bind_prog (print s) f w = f () (w\<lparr>stdout := stdout w @ [s]\<rparr>)"
  by (simp add: bind_prog_def print_def)

text \<open>
  A loop that returns has set the four margins at each position it was given, with four
  calls for each.
\<close>

lemma margin_loop_returns:
  assumes "margin_loop env ss doc w = (Inr doc', w')"
  shows "doc' = doc\<lparr>sections :=
            fold (\<lambda>i. update_at i (\<lambda>x. x\<lparr>top_margin := Some (Inches (1/2)),
                                          bottom_margin := Some (Inches (1/2)),
                                          left_margin := Some (Inches (1/2)),
                                          right_margin := Some (Inches (1/2))\<rparr>))
              ss (sections doc)\<rparr>
         \<and> w' = w\<lparr>calls := calls w + 4 * length ss\<rparr>"
  using assms
proof (induction ss arbitrary: doc w)
  case Nil
  then show ?case by (simp add: unit_prog_def)
next
  case (Cons s rest)
  from Cons.prems have rest:
    "margin_loop env rest
       (doc\<lparr>sections := update_at s (\<lambda>x. x\<lparr>top_margin := Some (Inches (1/2)),
                                          bottom_margin := Some (Inches (1/2)),
                                          left_margin := Some (Inches (1/2)),
                                          right_margin := Some (Inches (1/2))\<rparr>) (sections doc)\<rparr>)
       (w\<lparr>calls := Suc (Suc (Suc (Suc (calls w))))\<rparr>) = (Inr doc', w')"
    apply (simp only: margin_loop.simps)
    apply (elim bind_prog_InrE)
    apply (simp only: set_top_margin_def set_bottom_margin_def set_left_margin_def
        set_right_margin_def)
    apply (elim lib_call_InrE)
    apply (simp add: update_at_twice)
    done
  from Cons.IH [OF rest] show ?case
    by simp
qed

lemma bind_margin_loop_InrD:
  assumes "bind_prog (margin_loop env [0..<length (sections doc)] doc) f w = (Inr y, w'')"
  shows "f (doc\<lparr>sections := map (\<lambda>x. x\<lparr>top_margin := Some (Inches (1/2)),
                                          bottom_margin := Some (Inches (1/2)),
                                          left_margin := Some (Inches (1/2)),
                                          right_margin := Some (Inches (1/2))\<rparr>) (sections doc)\<rparr>)
           (w\<lparr>calls := calls w + 4 * length (sections doc)\<rparr>) = (Inr y, w'')"
proof -
  from assms obtain d w' where
    loop: "margin_loop env [0..<length (sections doc)] doc w = (Inr d, w')"
    and rest: "f d w' = (Inr y, w'')"
    by (rule bind_prog_InrE)
  from margin_loop_returns [OF loop] rest show ?thesis
    by (simp add: fold_update_at_all)
qed

text \<open>
  The state a returning \<open>create_template\<close> leaves: the document built on the blank one,
  stored at the output path, the two success lines printed, and one call made for each
  statement that enters the package.
\<close>

lemma create_template_returns:
  assumes "create_template env w = (Inr u, w')"
  shows "w' = w\<lparr>calls := calls w + (4 * length (sections (template env)) + 14),
                fs := (fs w)(''../assets/docx/document_template.docx'' \<mapsto> Docx
                  ((template env)\<lparr>sections :=
                      map (\<lambda>x. x\<lparr>top_margin := Some (Inches (1/2)),
                                 bottom_margin := Some (Inches (1/2)),
                                 left_margin := Some (Inches (1/2)),
                                 right_margin := Some (Inches (1/2))\<rparr>) (sections (template env)),
                    paragraphs := paragraphs (template env) @
                      [\<lparr>alignment = Some CENTER,
                        runs = [\<lparr>run_text = ''{% for page in pages %}'', font_size = Some (Pt 1)\<rparr>]\<rparr>,
                       \<lparr>alignment = Some CENTER,
                        runs = [\<lparr>run_text = ''{{%img}}'', font_size = Some (Pt 1)\<rparr>]\<rparr>,
                       \<lparr>alignment = None,
                        runs = [\<lparr>run_text = ''{% endfor %}'', font_size = Some (Pt 1)\<rparr>]\<rparr>]\<rparr>)),
                stdout := stdout w @
                  [check_mark @ '' Template created successfully at: ../assets/docx/document_template.docx'',
                   ''  This template can now be used by the Flutter app to generate DOCX files.'']\<rparr>"
  using assms
  apply (simp only: create_template_def Document_def get_sections_def)
  apply (drule bind_lib_call_InrD)
  apply (drule bind_lib_call_InrD)
  apply (drule bind_margin_loop_InrD)
  apply (simp only: add_paragraph_def set_alignment_def add_run_def set_font_size_def Let_def)
  apply (drule bind_lib_call_InrD, simp add: update_at_simps)
  apply (drule bind_lib_call_InrD, simp add: update_at_simps)
  apply (drule bind_lib_call_InrD, simp add: update_at_simps)
  apply (drule bind_lib_call_InrD, simp add: update_at_simps)
  apply (drule bind_lib_call_InrD, simp add: update_at_simps)
  apply (drule bind_lib_call_InrD, simp add: update_at_simps)
  apply (drule bind_lib_call_InrD, simp add: update_at_simps)
  apply (drule bind_lib_call_InrD, simp add: update_at_simps)
  apply (drule bind_lib_call_InrD, simp add: update_at_simps)
  apply (drule bind_lib_call_InrD, simp add: update_at_simps)
  apply (drule bind_lib_call_InrD, simp add: update_at_simps)
  apply (drule bind_save_InrD)
  apply (simp add: bind_print print_def)
  apply (drule sym)
  apply (simp only:)
  apply (rule world.equality)
     apply simp_all
  done

text \<open>The runs on the concrete environments, evaluated.\<close>

lemma env_ok_returns:
  "create_template env_ok w0 = (Inr (), snd (create_template env_ok w0))"
proof -
  have "fst (create_template env_ok w0) = Inr ()" by code_simp
  then show ?thesis by (simp add: prod_eq_iff)
qed

lemma env_unwritable_raises:
  "create_template env_unwritable w0 =
     (Inl permission_denied, snd (create_template env_unwritable w0))"
proof -
  have "fst (create_template env_unwritable w0) = Inl permission_denied" by code_simp
  then show ?thesis by (simp add: prod_eq_iff)
qed

lemma env_disk_full_raises:
  "create_template env_disk_full w0 =
     (Inl no_space_left, snd (create_template env_disk_full w0))"
proof -
  have "fst (create_template env_disk_full w0) = Inl no_space_left" by code_simp
  then show ?thesis by (simp add: prod_eq_iff)
qed

lemma env_late_fault_returns:
  "create_template env_late_fault w_used = (Inr (), snd (create_template env_late_fault w_used))"
proof -
  have "fst (create_template env_late_fault w_used) = Inr ()" by code_simp
  then show ?thesis by (simp add: prod_eq_iff)
qed

text \<open>An exception that neither handler takes leaves the script as it was raised.\<close>

lemma script_uncaught:
  assumes "docx_installed env"
    and "create_template env w = (Inl e, w')"
    and "\<not> isinstance e ImportError"
    and "\<not> isinstance e Exception"
  shows "script env w = (Traceback e, w')"
  using assms by (simp add: script_def main_block_def)

subsection \<open>The document produced\<close>

text \<open>
  C2. The document produced by \<open>create_template\<close> contains exactly three paragraphs,
  their texts are the three marker strings, and every run carrying a marker has font size
  1pt. The body of the blank document \<^verbatim>\<open>Document()\<close> returns is decided by the package,
  not by the script: it is taken to be empty, as in the package's default template.
\<close>

theorem C2_three_marker_paragraphs:
  assumes "create_template env w = (Inr (), w')"
    and "paragraphs (template env) = []"
  shows "\<exists>d. fs w' ''../assets/docx/document_template.docx'' = Some (Docx d)
             \<and> length (paragraphs d) = 3
             \<and> map paragraph_text (paragraphs d) =
                 [''{% for page in pages %}'', ''{{%img}}'', ''{% endfor %}'']
             \<and> (\<forall>p \<in> set (paragraphs d). \<forall>r \<in> set (runs p). font_size r = Some (Pt 1))"
  using create_template_returns [OF assms(1)] assms(2)
  by (simp add: paragraph_text_def)

theorem C2_three_marker_paragraphs_witness:
  "create_template env_ok w0 = (Inr (), snd (create_template env_ok w0))
   \<and> paragraphs (template env_ok) = []
   \<and> (\<exists>d. fs (snd (create_template env_ok w0)) ''../assets/docx/document_template.docx''
              = Some (Docx d)
            \<and> length (paragraphs d) = 3
            \<and> map paragraph_text (paragraphs d) =
                [''{% for page in pages %}'', ''{{%img}}'', ''{% endfor %}'']
            \<and> (\<forall>p \<in> set (paragraphs d). \<forall>r \<in> set (runs p). font_size r = Some (Pt 1)))"
proof -
  have body: "paragraphs (template env_ok) = []"
    by (simp add: env_ok_def blank_document_def)
  from C2_three_marker_paragraphs [OF env_ok_returns body] env_ok_returns body
  show ?thesis by blast
qed

text \<open>
  C3. For every section of the document produced by \<open>create_template\<close>, the top,
  bottom, left and right margins are each equal to 0.5 inch. The document has the
  sections of the blank document, however many these are.
\<close>

theorem C3_half_inch_margins:
  assumes "create_template env w = (Inr (), w')"
  shows "\<exists>d. fs w' ''../assets/docx/document_template.docx'' = Some (Docx d)
             \<and> length (sections d) = length (sections (template env))
             \<and> (\<forall>s \<in> set (sections d).
                    top_margin s = Some (Inches (1/2)) \<and> bottom_margin s = Some (Inches (1/2))
                  \<and> left_margin s = Some (Inches (1/2)) \<and> right_margin s = Some (Inches (1/2)))"
  using create_template_returns [OF assms]
  by auto

theorem C3_half_inch_margins_witness:
  "create_template env_ok w0 = (Inr (), snd (create_template env_ok w0))
   \<and> (\<exists>d. fs (snd (create_template env_ok w0)) ''../assets/docx/document_template.docx''
              = Some (Docx d)
            \<and> length (sections d) = 1
            \<and> (\<forall>s \<in> set (sections d).
                   top_margin s = Some 457200 \<and> bottom_margin s = Some 457200
                 \<and> left_margin s = Some 457200 \<and> right_margin s = Some 457200))"
  using C3_half_inch_margins [OF env_ok_returns] env_ok_returns
  by (simp add: Inches_half env_ok_def blank_document_def)

text \<open>
  C7. In the produced document the three marker paragraphs appear in document order:
  \<^verbatim>\<open>{% for page in pages %}\<close> first, \<^verbatim>\<open>{{%img}}\<close> second and \<^verbatim>\<open>{% endfor %}\<close> third. They
  are appended to the body of the blank document in this order, so with an empty blank
  body they are the first, second and third paragraph of the document.
\<close>

theorem C7_markers_in_order:
  assumes "create_template env w = (Inr (), w')"
  shows "\<exists>d p1 p2 p3.
           fs w' ''../assets/docx/document_template.docx'' = Some (Docx d)
         \<and> paragraphs d = paragraphs (template env) @ [p1, p2, p3]
         \<and> paragraph_text p1 = ''{% for page in pages %}''
         \<and> paragraph_text p2 = ''{{%img}}''
         \<and> paragraph_text p3 = ''{% endfor %}''"
  using create_template_returns [OF assms]
  by (simp add: paragraph_text_def)

theorem C7_markers_in_order_witness:
  "create_template env_ok w0 = (Inr (), snd (create_template env_ok w0))
   \<and> (\<exists>d p1 p2 p3.
           fs (snd (create_template env_ok w0)) ''../assets/docx/document_template.docx''
             = Some (Docx d)
         \<and> paragraphs d = [p1, p2, p3]
         \<and> paragraph_text p1 = ''{% for page in pages %}''
         \<and> paragraph_text p2 = ''{{%img}}''
         \<and> paragraph_text p3 = ''{% endfor %}'')"
  using C7_markers_in_order [OF env_ok_returns] env_ok_returns
  by (simp add: env_ok_def blank_document_def)

text \<open>
  C9. In the produced document the first marker paragraph (\<^verbatim>\<open>{% for page in pages %}\<close>)
  and the second (\<^verbatim>\<open>{{%img}}\<close>) are centre-aligned, while the third (\<^verbatim>\<open>{% endfor %}\<close>)
  has no alignment set.
\<close>

theorem C9_marker_alignment:
  assumes "create_template env w = (Inr (), w')"
  shows "\<exists>d. fs w' ''../assets/docx/document_template.docx'' = Some (Docx d)
             \<and> map (\<lambda>p. (paragraph_text p, alignment p))
                   (drop (length (paragraphs (template env))) (paragraphs d)) =
                 [(''{% for page in pages %}'', Some CENTER),
                  (''{{%img}}'', Some CENTER),
                  (''{% endfor %}'', None)]"
  using create_template_returns [OF assms]
  by (simp add: paragraph_text_def)

theorem C9_marker_alignment_witness:
  "create_template env_ok w0 = (Inr (), snd (create_template env_ok w0))
   \<and> (\<exists>d. fs (snd (create_template env_ok w0)) ''../assets/docx/document_template.docx''
              = Some (Docx d)
            \<and> map (\<lambda>p. (paragraph_text p, alignment p)) (paragraphs d) =
                [(''{% for page in pages %}'', Some CENTER),
                 (''{{%img}}'', Some CENTER),
                 (''{% endfor %}'', None)])"
  using C9_marker_alignment [OF env_ok_returns] env_ok_returns
  by (simp add: env_ok_def blank_document_def)

text \<open>
  C5. On every successful run, \<open>create_template\<close> saves the document to exactly the
  fixed relative path \<^verbatim>\<open>../assets/docx/document_template.docx\<close> and to no other path:
  the file system after the run is the one before it with a document at that path.
\<close>

theorem C5_saved_at_fixed_path_only:
  assumes "create_template env w = (Inr (), w')"
  shows "(\<exists>d. fs w' ''../assets/docx/document_template.docx'' = Some (Docx d))
       \<and> (\<forall>path. path \<noteq> ''../assets/docx/document_template.docx'' \<longrightarrow> fs w' path = fs w path)"
  using create_template_returns [OF assms]
  by simp

theorem C5_saved_at_fixed_path_only_witness:
  "create_template env_ok w0 = (Inr (), snd (create_template env_ok w0))
   \<and> (\<exists>d. fs (snd (create_template env_ok w0)) ''../assets/docx/document_template.docx''
              = Some (Docx d))
   \<and> fs (snd (create_template env_ok w0)) ''document_template.docx'' = None"
  using C5_saved_at_fixed_path_only [OF env_ok_returns] env_ok_returns
  by (simp add: w0_def)

text \<open>
  C10. \<open>create_template\<close> is deterministic and takes no input: any two runs that return,
  whatever the files, the output and the calls made before them, store the same document
  (section margins, paragraph texts and alignments, run font sizes) at the same path.
  The two runs use the same installed package, hence the same blank document.
\<close>

theorem C10_deterministic:
  assumes "create_template env1 w1 = (Inr (), w1')"
    and "create_template env2 w2 = (Inr (), w2')"
    and "template env1 = template env2"
  shows "\<exists>d. fs w1' = (fs w1)(''../assets/docx/document_template.docx'' \<mapsto> Docx d)
           \<and> fs w2' = (fs w2)(''../assets/docx/document_template.docx'' \<mapsto> Docx d)"
proof -
  from create_template_returns [OF assms(1)] create_template_returns [OF assms(2)] assms(3)
  obtain d where
    "fs w1' = (fs w1)(''../assets/docx/document_template.docx'' \<mapsto> Docx d)"
    "fs w2' = (fs w2)(''../assets/docx/document_template.docx'' \<mapsto> Docx d)"
    by simp
  then show ?thesis by blast
qed

theorem C10_deterministic_witness:
  "create_template env_ok w0 = (Inr (), snd (create_template env_ok w0))
   \<and> create_template env_late_fault w_used =
       (Inr (), snd (create_template env_late_fault w_used))
   \<and> template env_ok = template env_late_fault
   \<and> fs (snd (create_template env_ok w0)) ''../assets/docx/document_template.docx'' =
       fs (snd (create_template env_late_fault w_used)) ''../assets/docx/document_template.docx''"
proof -
  have same: "template env_ok = template env_late_fault"
    by (simp add: env_ok_def env_late_fault_def)
  from C10_deterministic [OF env_ok_returns env_late_fault_returns same] obtain d where
    "fs (snd (create_template env_ok w0)) =
       (fs w0)(''../assets/docx/document_template.docx'' \<mapsto> Docx d)"
    "fs (snd (create_template env_late_fault w_used)) =
       (fs w_used)(''../assets/docx/document_template.docx'' \<mapsto> Docx d)"
    by blast
  then have "fs (snd (create_template env_ok w0)) ''../assets/docx/document_template.docx'' =
             fs (snd (create_template env_late_fault w_used))
               ''../assets/docx/document_template.docx''"
    by simp
  with env_ok_returns env_late_fault_returns same show ?thesis
    by (intro conjI)
qed


subsection \<open>How the script ends\<close>

text \<open>
  C6. On every run where \<open>create_template\<close> completes without raising, the script has
  printed the two success messages and the process ends with exit status 0, with no
  call of \<^verbatim>\<open>exit\<close>: the script runs off its end.
\<close>

theorem C6_success_exit_zero:
  assumes "docx_installed env"
    and "create_template env w = (Inr (), w')"
  shows "script env w = (Exit 0, w')
       \<and> exit_status (fst (script env w)) = Some 0
       \<and> stdout (snd (script env w)) = stdout w @
           [check_mark @ '' Template created successfully at: ../assets/docx/document_template.docx'',
            ''  This template can now be used by the Flutter app to generate DOCX files.'']"
proof -
  have run: "script env w = (Exit 0, w')"
    using assms by (simp add: script_def main_block_def)
  moreover have "stdout w' = stdout w @
           [check_mark @ '' Template created successfully at: ../assets/docx/document_template.docx'',
            ''  This template can now be used by the Flutter app to generate DOCX files.'']"
    using create_template_returns [OF assms(2)] by simp
  ultimately show ?thesis by simp
qed

theorem C6_success_exit_zero_witness:
  "docx_installed env_ok
   \<and> create_template env_ok w0 = (Inr (), snd (create_template env_ok w0))
   \<and> fst (script env_ok w0) = Exit 0
   \<and> exit_status (fst (script env_ok w0)) = Some 0
   \<and> stdout (snd (script env_ok w0)) =
       [check_mark @ '' Template created successfully at: ../assets/docx/document_template.docx'',
        ''  This template can now be used by the Flutter app to generate DOCX files.'']"
proof -
  have inst: "docx_installed env_ok" by (simp add: env_ok_def)
  have quiet: "stdout w0 = []" by (simp add: w0_def)
  note run = C6_success_exit_zero [OF inst env_ok_returns]
  from run have status: "fst (script env_ok w0) = Exit 0" by simp
  from run have code: "exit_status (fst (script env_ok w0)) = Some 0" by blast
  from run have "stdout (snd (script env_ok w0)) = stdout w0 @
       [check_mark @ '' Template created successfully at: ../assets/docx/document_template.docx'',
        ''  This template can now be used by the Flutter app to generate DOCX files.'']"
    by blast
  then have out: "stdout (snd (script env_ok w0)) =
       [check_mark @ '' Template created successfully at: ../assets/docx/document_template.docx'',
        ''  This template can now be used by the Flutter app to generate DOCX files.'']"
    by (simp only: quiet append_Nil)
  from inst env_ok_returns status code out show ?thesis
    by (intro conjI)
qed

text \<open>
  C1. When the script is run where python-docx is not installed, it prints the
  dependency-missing message with the install instructions and exits with status 1.
  The code does not do this: the imports are module-level statements ahead of the
  \<^verbatim>\<open>try\<close>, so the \<^verbatim>\<open>ModuleNotFoundError\<close> of the first import is caught by nothing. The
  process ends with a traceback and status 1, and standard output stays empty.
\<close>

theorem C1_missing_dependency_uncaught:
  "script env_no_docx w0 = (Traceback no_module_named_docx, w0)
   \<and> stdout (snd (script env_no_docx w0)) = []
   \<and> exit_status (fst (script env_no_docx w0)) = Some 1"
  by (simp add: script_def env_no_docx_def w0_def no_module_named_docx_def isinstance_def)

text \<open>
  C4. If any exception other than \<^verbatim>\<open>ImportError\<close> is raised during document
  construction or file save, the script prints \<^verbatim>\<open>Error creating template: \<close> followed by
  the exception's message and exits with status 1.

  The handler is \<^verbatim>\<open>except Exception\<close>, and it comes second: it takes the instances of
  \<^verbatim>\<open>Exception\<close> that are not instances of \<^verbatim>\<open>ImportError\<close>. The claim holds for these.
\<close>

theorem C4_exception_reported:
  assumes "docx_installed env"
    and "create_template env w = (Inl e, w')"
    and "isinstance e Exception"
    and "\<not> isinstance e ImportError"
  shows "script env w = (Exit 1, w'\<lparr>stdout := stdout w' @ [''Error creating template: '' @ str e]\<rparr>)"
  using assms by (simp add: script_def main_block_def print_def)

theorem C4_exception_reported_witness:
  "docx_installed env_unwritable
   \<and> create_template env_unwritable w0 =
       (Inl permission_denied, snd (create_template env_unwritable w0))
   \<and> isinstance permission_denied Exception
   \<and> \<not> isinstance permission_denied ImportError
   \<and> fst (script env_unwritable w0) = Exit 1
   \<and> stdout (snd (script env_unwritable w0)) =
       [''Error creating template: [Errno 13] Permission denied: '' @ [CHR 0x27] @
        ''../assets/docx/document_template.docx'' @ [CHR 0x27]]"
proof -
  have inst: "docx_installed env_unwritable" by (simp add: env_unwritable_def)
  have exc: "isinstance permission_denied Exception"
    by (simp add: isinstance_def permission_denied_def)
  have imp: "\<not> isinstance permission_denied ImportError"
    by (simp add: isinstance_def permission_denied_def)
  have out: "stdout (snd (create_template env_unwritable w0)) = []" by code_simp
  from C4_exception_reported [OF inst env_unwritable_raises exc imp] inst
    env_unwritable_raises exc imp out
  show ?thesis by (simp add: permission_denied_def)
qed

text \<open>
  An exception that is not an instance of \<^verbatim>\<open>Exception\<close> passes both handlers: an
  interrupt during \<^verbatim>\<open>doc.save\<close> ends the script with a traceback and nothing printed.
\<close>

theorem C4_counterexample:
  "create_template env_interrupted w0 =
     (Inl keyboard_interrupt, snd (create_template env_interrupted w0))
   \<and> cls keyboard_interrupt \<noteq> ImportError
   \<and> \<not> isinstance keyboard_interrupt ImportError
   \<and> fst (script env_interrupted w0) = Traceback keyboard_interrupt
   \<and> stdout (snd (script env_interrupted w0)) = []"
proof -
  have "fst (create_template env_interrupted w0) = Inl keyboard_interrupt" by code_simp
  then have raised: "create_template env_interrupted w0 =
      (Inl keyboard_interrupt, snd (create_template env_interrupted w0))"
    by (simp add: prod_eq_iff)
  have out: "stdout (snd (create_template env_interrupted w0)) = []" by code_simp
  have inst: "docx_installed env_interrupted" by (simp add: env_interrupted_def)
  have cls: "cls keyboard_interrupt = KeyboardInterrupt" by (simp add: keyboard_interrupt_def)
  have no_imp: "\<not> isinstance keyboard_interrupt ImportError"
    by (simp add: isinstance_def cls)
  have no_exc: "\<not> isinstance keyboard_interrupt Exception"
    by (simp add: isinstance_def cls)
  have "script env_interrupted w0 =
      (Traceback keyboard_interrupt, snd (create_template env_interrupted w0))"
    using inst raised no_imp no_exc by (rule script_uncaught)
  with raised cls no_imp out show ?thesis by simp
qed

text \<open>
  C8. On every failing run, the error-handling path performs no retry of
  \<open>create_template\<close> and no modification of the file system (a partially written
  output file is neither deleted nor repaired); it only prints messages and exits. From
  the state in which the exception was raised, the files and the number of calls into
  the package are unchanged, the output has only grown, and the process ends.
\<close>

theorem C8_handlers_only_print_and_exit:
  assumes "docx_installed env"
    and "create_template env w = (Inl e, w')"
  shows "fs (snd (script env w)) = fs w'
       \<and> calls (snd (script env w)) = calls w'
       \<and> (\<exists>msgs. stdout (snd (script env w)) = stdout w' @ msgs)
       \<and> (fst (script env w) = Exit 1 \<or> fst (script env w) = Traceback e)"
  using assms by (simp add: script_def main_block_def print_def bind_prog_def)

theorem C8_handlers_only_print_and_exit_witness:
  "docx_installed env_disk_full
   \<and> create_template env_disk_full w0 =
       (Inl no_space_left, snd (create_template env_disk_full w0))
   \<and> fs (snd (script env_disk_full w0)) ''../assets/docx/document_template.docx'' =
       Some Truncated
   \<and> calls (snd (script env_disk_full w0)) = 18
   \<and> fst (script env_disk_full w0) = Exit 1"
proof -
  have inst: "docx_installed env_disk_full" by (simp add: env_disk_full_def)
  have torn: "fs (snd (create_template env_disk_full w0))
                ''../assets/docx/document_template.docx'' = Some Truncated"
    by code_simp
  have count: "calls (snd (create_template env_disk_full w0)) = 18" by code_simp
  have status: "fst (script env_disk_full w0) = Exit 1" by code_simp
  from C8_handlers_only_print_and_exit [OF inst env_disk_full_raises] inst
    env_disk_full_raises torn count status
  show ?thesis by simp
qed


end
